theory Spec2Isabelle
  imports Main "HOL-Library.Multiset"
begin

section \<open>The persistent store\<close>

text \<open>
  The route handlers of \<^verbatim>\<open>routes/events.js\<close> and \<^verbatim>\<open>routes/contact.js\<close> talk to a
  relational store through an object-relational mapper. The schema file is not part of
  the sources, so the tables carry the columns the handlers read and write.
  The event table is keyed by the primary key that the routes take from the URL;
  the user and registration tables are lists in insertion order, which is the order
  in which \<^verbatim>\<open>findFirst\<close> inspects rows here. Keys generated by the store are
  counter values, and time stamps are readings of a clock handed in with the request.
\<close>

record event =
  title :: string
  description :: string
  date :: string
  category :: string
  maxCapacity :: "int option"
  currentCapacity :: int

record user =
  user_id :: nat
  email :: string
  senecaId :: string
  firstName :: string
  lastName :: string
  program :: string
  year :: int
  password :: string

record registration =
  reg_id :: nat
  userId :: nat
  eventId :: string
  createdAt :: nat

record contact_message =
  msg_id :: nat
  msg_name :: string
  msg_email :: string
  msg_subject :: string
  msg_message :: string

record store =
  events :: "string \<rightharpoonup> event"
  users :: "user list"
  registrations :: "registration list"
  contactMessages :: "contact_message list"
  nextUserId :: nat
  nextRegistrationId :: nat
  nextMessageId :: nat

text \<open>\<^verbatim>\<open>prisma.event.findUnique({ where: { id } })\<close>\<close>

definition event_findUnique :: "string \<Rightarrow> store \<Rightarrow> event option" where
  "event_findUnique i s = events s i"

text \<open>\<^verbatim>\<open>prisma.user.findFirst({ where: { OR: [{ email }, { senecaId }] } })\<close>\<close>

definition user_findFirst :: "string \<Rightarrow> string \<Rightarrow> store \<Rightarrow> user option" where
  "user_findFirst em sid s = find (\<lambda>u. email u = em \<or> senecaId u = sid) (users s)"

text \<open>\<^verbatim>\<open>prisma.eventRegistration.findFirst({ where: { userId, eventId: id } })\<close>\<close>

definition registration_findFirst :: "nat \<Rightarrow> string \<Rightarrow> store \<Rightarrow> registration option" where
  "registration_findFirst uid i s =
     find (\<lambda>r. userId r = uid \<and> eventId r = i) (registrations s)"

text \<open>\<^verbatim>\<open>prisma.user.create({ data: {...} })\<close>: the store assigns the key.\<close>

definition user_create ::
  "string \<Rightarrow> string \<Rightarrow> string \<Rightarrow> string \<Rightarrow> string \<Rightarrow> int \<Rightarrow> string \<Rightarrow> store \<Rightarrow> user \<times> store" where
  "user_create em sid fn ln pr yr pw s =
     (let u = \<lparr>user_id = nextUserId s, email = em, senecaId = sid, firstName = fn,
                lastName = ln, program = pr, year = yr, password = pw\<rparr>
      in (u, s\<lparr>users := users s @ [u], nextUserId := Suc (nextUserId s)\<rparr>))"

text \<open>\<^verbatim>\<open>prisma.eventRegistration.create({ data: { userId, eventId: id } })\<close>\<close>

definition registration_create :: "nat \<Rightarrow> string \<Rightarrow> nat \<Rightarrow> store \<Rightarrow> registration \<times> store" where
  "registration_create uid i now s =
     (let r = \<lparr>reg_id = nextRegistrationId s, userId = uid, eventId = i, createdAt = now\<rparr>
      in (r, s\<lparr>registrations := registrations s @ [r],
               nextRegistrationId := Suc (nextRegistrationId s)\<rparr>))"

text \<open>
  \<^verbatim>\<open>prisma.event.update({ where: { id }, data: { currentCapacity: { increment: 1 } } })\<close>:
  one atomic statement of the store; it throws when no row has the key.
\<close>

definition event_increment :: "string \<Rightarrow> store \<Rightarrow> store option" where
  "event_increment i s =
     (case events s i of
        None \<Rightarrow> None
      | Some e \<Rightarrow> Some (s\<lparr>events := (events s)(i \<mapsto> e\<lparr>currentCapacity := currentCapacity e + 1\<rparr>)\<rparr>))"

section \<open>Requests and responses\<close>

record user_view =
  v_firstName :: string
  v_lastName :: string
  v_email :: string
  v_program :: string
  v_year :: int

datatype body =
    ErrorMsg string
  | Errors "string list"
  | RegistrationCreated string registration
  | RegistrationList "(registration \<times> user_view option) list"
  | EventBody event
  | ContactCreated string nat

type_synonym response = "nat \<times> body"

record register_body =
  b_name :: string
  b_email :: string
  b_senecaId :: string
  b_program :: string
  b_year :: int

text \<open>
  A registration request: the \<^verbatim>\<open>:id\<close> of the URL, the JSON body, the clock reading
  that stamps a row created for it and the suffix \<^verbatim>\<open>Math.random()\<close> yields for a
  temporary password.
\<close>

record register_request =
  req_id :: string
  req_body :: register_body
  req_now :: nat
  req_rnd :: string

section \<open>The validation library\<close>

text \<open>
  The validator chains of the routes call a validation library that is not part of
  the sources. Its functions are parameters of the handlers: the syntax checks
  \<^verbatim>\<open>isEmail\<close> and \<^verbatim>\<open>isISO8601\<close>, the sanitizer \<^verbatim>\<open>trim\<close>, which strips white
  space from both ends, and \<^verbatim>\<open>isLength({ min, max })\<close>, which bounds the number of
  characters, with or without an upper bound. Nothing is assumed of them. A string
  stands for the UTF-8 encoding of the JavaScript string, on which equality and the
  split at a blank are those of the program.
\<close>

record library =
  isEmail :: "string \<Rightarrow> bool"
  isISO8601 :: "string \<Rightarrow> bool"
  trim :: "string \<Rightarrow> string"
  isLength :: "string \<Rightarrow> nat \<Rightarrow> nat option \<Rightarrow> bool"

section \<open>Input validation of the registration route\<close>

text \<open>
  The validator chain of \<^verbatim>\<open>POST /:id/register\<close>, one message per failed check, in
  the order of the chain.
\<close>

definition register_validation :: "library \<Rightarrow> register_body \<Rightarrow> string list" where
  "register_validation lib b =
     (if trim lib (b_name b) = [] then [''Name is required''] else []) @
     (if \<not> isEmail lib (b_email b) then [''Valid email is required''] else []) @
     (if trim lib (b_senecaId b) = [] then [''Seneca ID is required''] else []) @
     (if trim lib (b_program b) = [] then [''Program is required''] else []) @
     (if \<not> (1 \<le> b_year b \<and> b_year b \<le> 4) then [''Year must be 1-4''] else [])"

text \<open>The \<^verbatim>\<open>trim()\<close> sanitizers of the chain rewrite the body the handler reads.\<close>

definition register_sanitize :: "library \<Rightarrow> register_body \<Rightarrow> register_body" where
  "register_sanitize lib b =
     b\<lparr>b_name := trim lib (b_name b), b_senecaId := trim lib (b_senecaId b),
       b_program := trim lib (b_program b)\<rparr>"

section \<open>The registration handler\<close>

text \<open>\<^verbatim>\<open>event.maxCapacity && event.currentCapacity >= event.maxCapacity\<close>:
  a ceiling that is \<^verbatim>\<open>null\<close> or \<^verbatim>\<open>0\<close> is falsy and switches the check off.\<close>

definition at_full_capacity :: "event \<Rightarrow> bool" where
  "at_full_capacity e =
     (case maxCapacity e of
        None \<Rightarrow> False
      | Some m \<Rightarrow> m \<noteq> 0 \<and> currentCapacity e \<ge> m)"

text \<open>\<^verbatim>\<open>name.split(' ')[0]\<close> and \<^verbatim>\<open>name.split(' ').slice(1).join(' ') || ''\<close>\<close>

definition first_name_of :: "string \<Rightarrow> string" where
  "first_name_of n = takeWhile (\<lambda>c. c \<noteq> CHR '' '') n"

definition last_name_of :: "string \<Rightarrow> string" where
  "last_name_of n = drop 1 (dropWhile (\<lambda>c. c \<noteq> CHR '' '') n)"

definition new_user_for :: "register_request \<Rightarrow> register_body \<Rightarrow> store \<Rightarrow> user \<times> store" where
  "new_user_for rq b s =
     user_create (b_email b) (b_senecaId b) (first_name_of (b_name b)) (last_name_of (b_name b))
       (b_program b) (b_year b) (''temp-password-'' @ req_rnd rq) s"

text \<open>The tail of the handler: create the registration, then bump the counter.\<close>

definition create_and_count :: "register_request \<Rightarrow> nat \<Rightarrow> store \<Rightarrow> response \<times> store" where
  "create_and_count rq uid s =
     (let (registration, s1) = registration_create uid (req_id rq) (req_now rq) s
      in case event_increment (req_id rq) s1 of
           None \<Rightarrow> ((500, ErrorMsg ''Failed to register for event''), s1)
         | Some s2 \<Rightarrow>
             ((201, RegistrationCreated ''Successfully registered for event'' registration), s2))"

definition register_handler ::
  "library \<Rightarrow> register_request \<Rightarrow> store \<Rightarrow> response \<times> store" where
  "register_handler lib rq s =
     (let errors = register_validation lib (req_body rq) in
      if errors \<noteq> [] then ((400, Errors errors), s)
      else
        let b = register_sanitize lib (req_body rq) in
        case event_findUnique (req_id rq) s of
          None \<Rightarrow> ((404, ErrorMsg ''Event not found''), s)
        | Some event \<Rightarrow>
            if at_full_capacity event then ((400, ErrorMsg ''Event is at full capacity''), s)
            else
              (case user_findFirst (b_email b) (b_senecaId b) s of
                 Some existingUser \<Rightarrow>
                   (case registration_findFirst (user_id existingUser) (req_id rq) s of
                      Some existingRegistration \<Rightarrow>
                        ((400, ErrorMsg ''Already registered for this event''), s)
                    | None \<Rightarrow> create_and_count rq (user_id existingUser) s)
               | None \<Rightarrow>
                   (let (newUser, s1) = new_user_for rq b s
                    in create_and_count rq (user_id newUser) s1)))"

section \<open>Listing the registrations of an event\<close>

text \<open>
  The routes behind the authentication middleware read \<^verbatim>\<open>req.user\<close>, which the
  middleware (not part of the sources) has set from the caller's token.
\<close>

record caller =
  role :: string

definition view_of :: "user \<Rightarrow> user_view" where
  "view_of u = \<lparr>v_firstName = firstName u, v_lastName = lastName u, v_email = email u,
                 v_program = program u, v_year = year u\<rparr>"

text \<open>
  \<^verbatim>\<open>prisma.eventRegistration.findMany({ where: { eventId: id }, include: { user: ... },
  orderBy: { createdAt: 'asc' } })\<close>: each row comes with the selected columns of the
  user its \<^verbatim>\<open>userId\<close> names.
\<close>

definition registration_findMany :: "string \<Rightarrow> store \<Rightarrow> (registration \<times> user_view option) list" where
  "registration_findMany i s =
     map (\<lambda>r. (r, map_option view_of (find (\<lambda>u. user_id u = userId r) (users s))))
       (sort_key createdAt (filter (\<lambda>r. eventId r = i) (registrations s)))"

definition registrations_handler :: "caller \<Rightarrow> string \<Rightarrow> store \<Rightarrow> response" where
  "registrations_handler usr i s =
     (if role usr \<noteq> ''ADMIN'' then (403, ErrorMsg ''Admin access required'')
      else (200, RegistrationList (registration_findMany i s)))"

section \<open>Updating an event\<close>

text \<open>
  The body of \<^verbatim>\<open>PUT /:id\<close> is handed to the store as it is. A field of the body is
  absent (\<open>None\<close>) or carries the new value of its column; the ceiling can also be
  set to \<^verbatim>\<open>null\<close>.
\<close>

record event_patch =
  p_title :: "string option"
  p_description :: "string option"
  p_date :: "string option"
  p_category :: "string option"
  p_maxCapacity :: "int option option"
  p_currentCapacity :: "int option"

definition categories :: "string list" where
  "categories = [''WORKSHOP'', ''LECTURE'', ''SOCIAL'', ''COMPETITION'', ''FIELD_TRIP'',
                 ''CONFERENCE'', ''OTHER'']"

definition optional_check :: "'a option \<Rightarrow> ('a \<Rightarrow> bool) \<Rightarrow> string \<Rightarrow> string list" where
  "optional_check field ok msg =
     (case field of None \<Rightarrow> [] | Some v \<Rightarrow> if ok v then [] else [msg])"

text \<open>The validator chain of \<^verbatim>\<open>PUT /:id\<close>.\<close>

definition update_validation :: "library \<Rightarrow> event_patch \<Rightarrow> string list" where
  "update_validation lib p =
     optional_check (p_title p) (\<lambda>t. isLength lib (trim lib t) 3 (Some 100))
       ''Title must be 3-100 characters'' @
     optional_check (p_description p) (\<lambda>d. isLength lib (trim lib d) 10 None)
       ''Description must be at least 10 characters'' @
     optional_check (p_date p) (isISO8601 lib) ''Invalid date format'' @
     optional_check (p_category p) (\<lambda>c. c \<in> set categories) ''Invalid category''"

definition update_sanitize :: "library \<Rightarrow> event_patch \<Rightarrow> event_patch" where
  "update_sanitize lib p =
     p\<lparr>p_title := map_option (trim lib) (p_title p),
       p_description := map_option (trim lib) (p_description p)\<rparr>"

definition or_keep :: "'a option \<Rightarrow> 'a \<Rightarrow> 'a" where
  "or_keep field old = (case field of None \<Rightarrow> old | Some v \<Rightarrow> v)"

definition apply_patch :: "event_patch \<Rightarrow> event \<Rightarrow> event" where
  "apply_patch p e =
     e\<lparr>title := or_keep (p_title p) (title e),
       description := or_keep (p_description p) (description e),
       date := or_keep (p_date p) (date e),
       category := or_keep (p_category p) (category e),
       maxCapacity := or_keep (p_maxCapacity p) (maxCapacity e),
       currentCapacity := or_keep (p_currentCapacity p) (currentCapacity e)\<rparr>"

text \<open>\<^verbatim>\<open>prisma.event.update({ where: { id }, data: req.body })\<close>; throws on an unknown key.\<close>

definition event_update :: "string \<Rightarrow> event_patch \<Rightarrow> store \<Rightarrow> (event \<times> store) option" where
  "event_update i p s =
     (case events s i of
        None \<Rightarrow> None
      | Some e \<Rightarrow> Some (apply_patch p e, s\<lparr>events := (events s)(i \<mapsto> apply_patch p e)\<rparr>))"

definition update_handler ::
  "library \<Rightarrow> caller \<Rightarrow> string \<Rightarrow> event_patch \<Rightarrow> store \<Rightarrow> response \<times> store" where
  "update_handler lib usr i p s =
     (if role usr \<noteq> ''ADMIN'' then ((403, ErrorMsg ''Admin access required''), s)
      else
        let errors = update_validation lib p in
        if errors \<noteq> [] then ((400, Errors errors), s)
        else
          case event_update i (update_sanitize lib p) s of
            None \<Rightarrow> ((500, ErrorMsg ''Failed to update event''), s)
          | Some (event, s1) \<Rightarrow> ((200, EventBody event), s1))"

section \<open>The contact form\<close>

record contact_body =
  c_name :: string
  c_email :: string
  c_subject :: string
  c_message :: string

definition contact_validation :: "library \<Rightarrow> contact_body \<Rightarrow> string list" where
  "contact_validation lib b =
     (if \<not> isLength lib (trim lib (c_name b)) 2 (Some 50)
      then [''Name must be 2-50 characters''] else []) @
     (if \<not> isEmail lib (c_email b) then [''Valid email is required''] else []) @
     (if \<not> isLength lib (trim lib (c_subject b)) 5 (Some 100)
      then [''Subject must be 5-100 characters''] else []) @
     (if \<not> isLength lib (trim lib (c_message b)) 10 (Some 1000)
      then [''Message must be 10-1000 characters''] else [])"

definition contact_sanitize :: "library \<Rightarrow> contact_body \<Rightarrow> contact_body" where
  "contact_sanitize lib b =
     b\<lparr>c_name := trim lib (c_name b), c_subject := trim lib (c_subject b),
       c_message := trim lib (c_message b)\<rparr>"

text \<open>\<^verbatim>\<open>prisma.contactMessage.create({ data: { name, email, subject, message } })\<close>\<close>

definition contactMessage_create :: "contact_body \<Rightarrow> store \<Rightarrow> contact_message \<times> store" where
  "contactMessage_create b s =
     (let m = \<lparr>msg_id = nextMessageId s, msg_name = c_name b, msg_email = c_email b,
                msg_subject = c_subject b, msg_message = c_message b\<rparr>
      in (m, s\<lparr>contactMessages := contactMessages s @ [m],
               nextMessageId := Suc (nextMessageId s)\<rparr>))"

text \<open>
  What the handler does besides answering and writing the store: a mail handed to
  the transport (its subject line and the values set into the HTML template) and
  the lines written with \<^verbatim>\<open>console.error\<close>.
\<close>

datatype effect =
    MailSent string "string list"
  | ErrorLogged string

text \<open>
  The two calls of \<^verbatim>\<open>POST /\<close> that can throw are the insert and
  \<^verbatim>\<open>transporter.sendMail\<close>. Whether each resolves is decided outside the program:
  \<open>persisted\<close> and \<open>delivered\<close> say which way it goes. The inner
  \<^verbatim>\<open>try/catch\<close> logs a failed send and falls through to the answer.
\<close>

definition contact_handler ::
  "library \<Rightarrow> bool \<Rightarrow> bool \<Rightarrow> contact_body \<Rightarrow> store \<Rightarrow> response \<times> store \<times> effect list" where
  "contact_handler lib persisted delivered body0 s =
     (let errors = contact_validation lib body0 in
      if errors \<noteq> [] then ((400, Errors errors), s, [])
      else
        let b = contact_sanitize lib body0 in
        if \<not> persisted
        then ((500, ErrorMsg ''Failed to submit contact form''), s,
              [ErrorLogged ''Error submitting contact form:''])
        else
          let (contactMessage, s1) = contactMessage_create b s;
              sent = (if delivered
                      then [MailSent (''New Contact Form: '' @ c_subject b)
                              [c_name b, c_email b, c_subject b, c_message b]]
                      else [ErrorLogged ''Failed to send email notification:''])
          in ((201, ContactCreated ''Contact form submitted successfully'' (msg_id contactMessage)),
              s1, sent))"

section \<open>Requests in flight\<close>

text \<open>
  The handler of \<^verbatim>\<open>POST /:id/register\<close> is an \<^verbatim>\<open>async\<close> function: it runs
  without interruption from one \<^verbatim>\<open>await\<close> to the next, and between two of its store
  calls other requests may run. A task is a request suspended before its next store
  call, holding the local variables that call and the later ones need.
\<close>

datatype task =
    Begin register_request
  | FindUser register_request register_body
  | FindRegistration register_request nat
  | CreateUser register_request register_body
  | CreateRegistration register_request nat
  | UpdateEvent register_request registration
  | Finished response

fun step :: "library \<Rightarrow> task \<Rightarrow> store \<Rightarrow> task \<times> store" where
  "step lib (Begin rq) s =
     (let errors = register_validation lib (req_body rq) in
      if errors \<noteq> [] then (Finished (400, Errors errors), s)
      else
        case event_findUnique (req_id rq) s of
          None \<Rightarrow> (Finished (404, ErrorMsg ''Event not found''), s)
        | Some event \<Rightarrow>
            if at_full_capacity event
            then (Finished (400, ErrorMsg ''Event is at full capacity''), s)
            else (FindUser rq (register_sanitize lib (req_body rq)), s))"
| "step lib (FindUser rq b) s =
     (case user_findFirst (b_email b) (b_senecaId b) s of
        Some existingUser \<Rightarrow> (FindRegistration rq (user_id existingUser), s)
      | None \<Rightarrow> (CreateUser rq b, s))"
| "step lib (FindRegistration rq uid) s =
     (case registration_findFirst uid (req_id rq) s of
        Some existingRegistration \<Rightarrow>
          (Finished (400, ErrorMsg ''Already registered for this event''), s)
      | None \<Rightarrow> (CreateRegistration rq uid, s))"
| "step lib (CreateUser rq b) s =
     (let (newUser, s1) = new_user_for rq b s in (CreateRegistration rq (user_id newUser), s1))"
| "step lib (CreateRegistration rq uid) s =
     (let (registration, s1) = registration_create uid (req_id rq) (req_now rq) s
      in (UpdateEvent rq registration, s1))"
| "step lib (UpdateEvent rq registration) s =
     (case event_increment (req_id rq) s of
        None \<Rightarrow> (Finished (500, ErrorMsg ''Failed to register for event''), s)
      | Some s2 \<Rightarrow>
          (Finished (201, RegistrationCreated ''Successfully registered for event'' registration),
           s2))"
| "step lib (Finished r) s = (Finished r, s)"

text \<open>
  A schedule names, turn by turn, the task that performs its next store call.
\<close>

fun run_schedule :: "library \<Rightarrow> nat list \<Rightarrow> task list \<times> store \<Rightarrow> task list \<times> store" where
  "run_schedule lib [] c = c"
| "run_schedule lib (i # sched) (ts, s) =
     (if i < length ts
      then (let (t', s') = step lib (ts ! i) s in run_schedule lib sched (ts[i := t'], s'))
      else run_schedule lib sched (ts, s))"

section \<open>Well-formed stores\<close>

text \<open>
  What the relational schema keeps true of the tables: user keys are distinct and
  below the next key to be handed out, and every registration row references an
  existing user and an existing event.
\<close>

definition wf_store :: "store \<Rightarrow> bool" where
  "wf_store s =
     (distinct (map user_id (users s)) \<and>
      (\<forall>u \<in> set (users s). user_id u < nextUserId s) \<and>
      (\<forall>r \<in> set (registrations s).
         userId r \<in> user_id ` set (users s) \<and> events s (eventId r) \<noteq> None))"

text \<open>The data-model invariant of an event: the counter does not exceed a ceiling that is set.\<close>

definition within_capacity :: "event \<Rightarrow> bool" where
  "within_capacity e = (case maxCapacity e of None \<Rightarrow> True | Some m \<Rightarrow> currentCapacity e \<le> m)"

section \<open>A listing entry for a submitted body\<close>

text \<open>
  The columns a listing shows for a participant, as a submitted body determines them:
  the name split at the first blank as the handler splits it when it creates a user,
  the e-mail address, the program and the year.
\<close>

definition submitted_view :: "library \<Rightarrow> register_body \<Rightarrow> user_view" where
  "submitted_view lib b =
     \<lparr>v_firstName = first_name_of (trim lib (b_name b)),
      v_lastName = last_name_of (trim lib (b_name b)),
      v_email = b_email b, v_program = trim lib (b_program b), v_year = b_year b\<rparr>"

section \<open>Sample data\<close>

text \<open>
  Concrete requests and stores on which the theorems below are exercised, and a
  stand-in for the library on ASCII strings, which all the sample strings are: there
  white space is the six characters below and the characters of a string are its
  bytes.
\<close>

definition sample_isEmail :: "string \<Rightarrow> bool" where
  "sample_isEmail e = (CHR ''@'' \<in> set e)"

definition sample_isISO8601 :: "string \<Rightarrow> bool" where
  "sample_isISO8601 d = (length d = 10)"

definition is_space :: "char \<Rightarrow> bool" where
  "is_space c = (c \<in> {CHR '' '', CHR 0x09, CHR 0x0A, CHR 0x0B, CHR 0x0C, CHR 0x0D})"

definition sample_trim :: "string \<Rightarrow> string" where
  "sample_trim str = rev (dropWhile is_space (rev (dropWhile is_space str)))"

definition sample_isLength :: "string \<Rightarrow> nat \<Rightarrow> nat option \<Rightarrow> bool" where
  "sample_isLength str lo hi =
     (lo \<le> length str \<and> (case hi of None \<Rightarrow> True | Some h \<Rightarrow> length str \<le> h))"

definition sample_lib :: library where
  "sample_lib = \<lparr>isEmail = sample_isEmail, isISO8601 = sample_isISO8601, trim = sample_trim,
                  isLength = sample_isLength\<rparr>"

definition sample_body :: "string \<Rightarrow> string \<Rightarrow> string \<Rightarrow> register_body" where
  "sample_body n em sid =
     \<lparr>b_name = n, b_email = em, b_senecaId = sid, b_program = ''Biology'', b_year = 2\<rparr>"

definition sample_request :: "register_body \<Rightarrow> nat \<Rightarrow> register_request" where
  "sample_request b t = \<lparr>req_id = ''e1'', req_body = b, req_now = t, req_rnd = ''k3j9x2m1q''\<rparr>"

definition alice_body :: register_body where
  "alice_body = sample_body ''Alice Liddell'' ''alice@example.com'' ''S1001''"

definition bob_body :: register_body where
  "bob_body = sample_body ''Bob Builder'' ''bob@example.com'' ''S2002''"

definition sample_event :: "int option \<Rightarrow> int \<Rightarrow> event" where
  "sample_event ceiling n =
     \<lparr>title = ''Lab night'', description = ''An evening in the lab'', date = ''2025-03-01'',
      category = ''WORKSHOP'', maxCapacity = ceiling, currentCapacity = n\<rparr>"

definition alice :: user where
  "alice = \<lparr>user_id = 1, email = ''alice@example.com'', senecaId = ''S1001'',
             firstName = ''Alice'', lastName = ''Liddell'', program = ''Biology'', year = 2,
             password = ''temp-password-a1b2c3d4e''\<rparr>"

text \<open>A store with the one event \<open>e1\<close> and nobody registered.\<close>

definition sample_store :: "int option \<Rightarrow> int \<Rightarrow> store" where
  "sample_store ceiling n =
     \<lparr>events = [''e1'' \<mapsto> sample_event ceiling n], users = [], registrations = [],
      contactMessages = [], nextUserId = 1, nextRegistrationId = 1, nextMessageId = 1\<rparr>"

text \<open>A store in which Alice is known and holds the only seat of \<open>e1\<close>.\<close>

definition full_store :: store where
  "full_store =
     \<lparr>events = [''e1'' \<mapsto> sample_event (Some 1) 1], users = [alice],
      registrations = [\<lparr>reg_id = 1, userId = 1, eventId = ''e1'', createdAt = 10\<rparr>],
      contactMessages = [], nextUserId = 2, nextRegistrationId = 2, nextMessageId = 1\<rparr>"

text \<open>A store in which Alice is known and \<open>e1\<close> has no ceiling and no registration.\<close>

definition alice_store :: store where
  "alice_store =
     \<lparr>events = [''e1'' \<mapsto> sample_event None 0], users = [alice], registrations = [],
      contactMessages = [], nextUserId = 2, nextRegistrationId = 1, nextMessageId = 1\<rparr>"

definition admin :: caller where
  "admin = \<lparr>role = ''ADMIN''\<rparr>"

definition member :: caller where
  "member = \<lparr>role = ''MEMBER''\<rparr>"

definition sample_contact :: contact_body where
  "sample_contact =
     \<lparr>c_name = ''Carol'', c_email = ''carol@example.com'', c_subject = ''Joining the club'',
      c_message = ''How do I become a member of the club?''\<rparr>"

text \<open>A store with two registrations for \<open>e1\<close>, the later one stored first.\<close>

definition bob :: user where
  "bob = \<lparr>user_id = 2, email = ''bob@example.com'', senecaId = ''S2002'',
           firstName = ''Bob'', lastName = ''Builder'', program = ''Physics'', year = 3,
           password = ''temp-password-z9y8x7w6v''\<rparr>"

definition busy_store :: store where
  "busy_store =
     \<lparr>events = [''e1'' \<mapsto> sample_event None 2], users = [alice, bob],
      registrations = [\<lparr>reg_id = 1, userId = 2, eventId = ''e1'', createdAt = 20\<rparr>,
                       \<lparr>reg_id = 2, userId = 1, eventId = ''e1'', createdAt = 10\<rparr>],
      contactMessages = [], nextUserId = 3, nextRegistrationId = 3, nextMessageId = 1\<rparr>"

text \<open>A body for \<^verbatim>\<open>PUT /:id\<close> that only lowers the ceiling to 2.\<close>

definition lower_ceiling :: event_patch where
  "lower_ceiling =
     \<lparr>p_title = None, p_description = None, p_date = None, p_category = None,
      p_maxCapacity = Some (Some 2), p_currentCapacity = None\<rparr>"

text \<open>A body for \<^verbatim>\<open>PUT /:id\<close> that only renames the event.\<close>

definition rename :: event_patch where
  "rename =
     \<lparr>p_title = Some ''  Lab evening '', p_description = None, p_date = None,
      p_category = None, p_maxCapacity = None, p_currentCapacity = None\<rparr>"

text \<open>A store in which Alice and Bob are known, in this order, and nobody is registered.\<close>

definition club_store :: store where
  "club_store =
     \<lparr>events = [''e1'' \<mapsto> sample_event None 0], users = [alice, bob], registrations = [],
      contactMessages = [], nextUserId = 3, nextRegistrationId = 1, nextMessageId = 1\<rparr>"

text \<open>A body with Alice's address under another name and another Seneca id.\<close>

definition borrowed_body :: register_body where
  "borrowed_body = sample_body ''Bob Builder'' ''alice@example.com'' ''S9009''"

text \<open>A body with Bob's address and Alice's Seneca id.\<close>

definition mixed_body :: register_body where
  "mixed_body = sample_body ''Bob Builder'' ''bob@example.com'' ''S1001''"

text \<open>
  Two requests in flight for the last seat of \<open>e1\<close>, and two schedules for them:
  one lets the first request finish before the second starts, the other lets the two
  take turns at every store call.
\<close>

definition last_seat :: "task list \<times> store" where
  "last_seat =
     ([Begin (sample_request alice_body 5), Begin (sample_request bob_body 6)],
      sample_store (Some 1) 0)"

definition one_after_the_other :: "nat list" where
  "one_after_the_other = [0, 0, 0, 0, 0, 1, 1, 1, 1, 1]"

definition taking_turns :: "nat list" where
  "taking_turns = [0, 1, 0, 1, 0, 1, 0, 1, 0, 1]"

text \<open>
  A body for \<^verbatim>\<open>PUT /:id\<close> that only sets the ceiling to 0, and the store it makes of
  \<open>full_store\<close>: Alice holds a registration for \<open>e1\<close>, whose counter 1 is above
  its ceiling 0.
\<close>

definition zero_ceiling :: event_patch where
  "zero_ceiling =
     \<lparr>p_title = None, p_description = None, p_date = None, p_category = None,
      p_maxCapacity = Some (Some 0), p_currentCapacity = None\<rparr>"

definition zero_store :: store where
  "zero_store = full_store\<lparr>events := [''e1'' \<mapsto> sample_event (Some 0) 1]\<rparr>"

section \<open>Auxiliary facts\<close>

lemmas sample_defs = sample_lib_def sample_isLength_def sample_isEmail_def sample_isISO8601_def sample_body_def sample_request_def
  alice_body_def bob_body_def sample_event_def alice_def sample_store_def full_store_def
  alice_store_def bob_def busy_store_def admin_def last_seat_def one_after_the_other_def taking_turns_def club_store_def borrowed_body_def mixed_body_def lower_ceiling_def zero_ceiling_def zero_store_def rename_def member_def sample_contact_def

lemmas handler_defs = register_handler_def register_validation_def register_sanitize_def
  sample_trim_def is_space_def at_full_capacity_def first_name_of_def last_name_of_def
  event_findUnique_def user_findFirst_def registration_findFirst_def user_create_def
  registration_create_def event_increment_def new_user_for_def create_and_count_def

lemma create_and_count_unfold:
  "create_and_count rq uid s =
     (let r = \<lparr>reg_id = nextRegistrationId s, userId = uid, eventId = req_id rq,
                createdAt = req_now rq\<rparr>;
          s1 = s\<lparr>registrations := registrations s @ [r],
                 nextRegistrationId := Suc (nextRegistrationId s)\<rparr>
      in case events s (req_id rq) of
           None \<Rightarrow> ((500, ErrorMsg ''Failed to register for event''), s1)
         | Some e \<Rightarrow>
             ((201, RegistrationCreated ''Successfully registered for event'' r),
              s1\<lparr>events := (events s)(req_id rq \<mapsto> e\<lparr>currentCapacity := currentCapacity e + 1\<rparr>)\<rparr>))"
  by (simp add: create_and_count_def registration_create_def event_increment_def Let_def
      split: option.splits)

lemma find_append_None: "find P xs = None \<Longrightarrow> find P (xs @ ys) = find P ys"
  by (induction xs) (auto split: if_splits)

lemma find_append_Some: "find P xs = Some x \<Longrightarrow> find P (xs @ ys) = Some x"
  by (induction xs) (auto split: if_splits)

lemma valid_sanitized:
  "b_email (register_sanitize lib b) = b_email b"
  "b_senecaId (register_sanitize lib b) = trim lib (b_senecaId b)"
  "b_name (register_sanitize lib b) = trim lib (b_name b)"
  "b_program (register_sanitize lib b) = trim lib (b_program b)"
  "b_year (register_sanitize lib b) = b_year b"
  by (simp_all add: register_sanitize_def)

lemma new_user_fields:
  "fst (new_user_for rq b s) =
     \<lparr>user_id = nextUserId s, email = b_email b, senecaId = b_senecaId b,
      firstName = first_name_of (b_name b), lastName = last_name_of (b_name b),
      program = b_program b, year = b_year b, password = ''temp-password-'' @ req_rnd rq\<rparr>"
  by (simp add: new_user_for_def user_create_def Let_def)

lemma register_success_cases:
  assumes ok: "register_handler lib rq s = ((201, bd), s1)"
  obtains (existing) e u where
      "register_validation lib (req_body rq) = []"
      "events s (req_id rq) = Some e" "\<not> at_full_capacity e"
      "user_findFirst (b_email (req_body rq)) (trim lib (b_senecaId (req_body rq))) s = Some u"
      "registration_findFirst (user_id u) (req_id rq) s = None"
      "bd = RegistrationCreated ''Successfully registered for event''
              \<lparr>reg_id = nextRegistrationId s, userId = user_id u, eventId = req_id rq,
               createdAt = req_now rq\<rparr>"
      "s1 = s\<lparr>registrations := registrations s @
                 [\<lparr>reg_id = nextRegistrationId s, userId = user_id u, eventId = req_id rq,
                   createdAt = req_now rq\<rparr>],
               nextRegistrationId := Suc (nextRegistrationId s),
               events := (events s)(req_id rq \<mapsto> e\<lparr>currentCapacity := currentCapacity e + 1\<rparr>)\<rparr>"
  | (created) e where
      "register_validation lib (req_body rq) = []"
      "events s (req_id rq) = Some e" "\<not> at_full_capacity e"
      "user_findFirst (b_email (req_body rq)) (trim lib (b_senecaId (req_body rq))) s = None"
      "bd = RegistrationCreated ''Successfully registered for event''
              \<lparr>reg_id = nextRegistrationId s, userId = nextUserId s, eventId = req_id rq,
               createdAt = req_now rq\<rparr>"
      "s1 = s\<lparr>users := users s @ [fst (new_user_for rq (register_sanitize lib (req_body rq)) s)],
               nextUserId := Suc (nextUserId s),
               registrations := registrations s @
                 [\<lparr>reg_id = nextRegistrationId s, userId = nextUserId s, eventId = req_id rq,
                   createdAt = req_now rq\<rparr>],
               nextRegistrationId := Suc (nextRegistrationId s),
               events := (events s)(req_id rq \<mapsto> e\<lparr>currentCapacity := currentCapacity e + 1\<rparr>)\<rparr>"
proof -
  from ok have v: "register_validation lib (req_body rq) = []"
    by (auto simp: register_handler_def Let_def split: if_splits)
  from ok v obtain e where e: "events s (req_id rq) = Some e" "\<not> at_full_capacity e"
    by (auto simp: register_handler_def event_findUnique_def Let_def split: if_splits option.splits)
  show thesis
  proof (cases "user_findFirst (b_email (req_body rq)) (trim lib (b_senecaId (req_body rq))) s")
    case None
    with ok v e show thesis
      by (intro created[of e])
         (auto simp: register_handler_def event_findUnique_def Let_def register_sanitize_def
            new_user_for_def user_create_def create_and_count_unfold)
  next
    case (Some u)
    with ok v e show thesis
      by (intro existing[of e u])
         (auto simp: register_handler_def event_findUnique_def Let_def register_sanitize_def
            create_and_count_unfold split: option.splits)
  qed
qed

lemma register_failure_unchanged:
  "fst (fst (register_handler lib rq s)) \<noteq> 201 \<Longrightarrow> snd (register_handler lib rq s) = s"
  by (auto simp: register_handler_def event_findUnique_def Let_def new_user_for_def
      user_create_def create_and_count_unfold split: option.splits if_splits)

lemma register_status:
  "fst (fst (register_handler lib rq s)) \<in> {201, 400, 404}"
  by (auto simp: register_handler_def event_findUnique_def Let_def new_user_for_def
      user_create_def create_and_count_unfold split: option.splits if_splits)

lemma increment_within_capacity:
  "within_capacity e \<Longrightarrow> \<not> at_full_capacity e \<Longrightarrow> maxCapacity e \<noteq> Some 0 \<Longrightarrow>
   within_capacity (e\<lparr>currentCapacity := currentCapacity e + 1\<rparr>)"
  by (auto simp: within_capacity_def at_full_capacity_def split: option.splits)

lemma register_events:
  "events (snd (register_handler lib rq s)) i =
     (if fst (fst (register_handler lib rq s)) = 201 \<and> i = req_id rq
      then map_option (\<lambda>e. e\<lparr>currentCapacity := currentCapacity e + 1\<rparr>) (events s i)
      else events s i)"
proof (cases "fst (fst (register_handler lib rq s)) = 201")
  case False
  then show ?thesis by (simp add: register_failure_unchanged)
next
  case True
  then have "register_handler lib rq s =
      ((201, snd (fst (register_handler lib rq s))), snd (register_handler lib rq s))"
    by (simp add: prod_eq_iff)
  then show ?thesis using True
    by (elim register_success_cases) auto
qed

lemma update_events:
  "events (snd (update_handler lib usr j p s)) i =
     (if role usr = ''ADMIN'' \<and> update_validation lib p = [] \<and> i = j
      then map_option (apply_patch (update_sanitize lib p)) (events s i)
      else events s i)"
  by (auto simp: update_handler_def event_update_def Let_def split: option.splits)

lemma apply_patch_capacity:
  "p_maxCapacity p = None \<Longrightarrow> p_currentCapacity p = None \<Longrightarrow>
   within_capacity (apply_patch (update_sanitize lib p) e) = within_capacity e"
  by (simp add: apply_patch_def update_sanitize_def or_keep_def within_capacity_def
      split: option.splits)

lemma find_None_filter: "find P xs = None \<Longrightarrow> filter P xs = []"
  by (induction xs) (auto split: if_splits)

lemma find_Some_set: "find P xs = Some x \<Longrightarrow> x \<in> set xs \<and> P x"
  by (induction xs) (auto split: if_splits)

lemma find_by_key:
  "distinct (map f xs) \<Longrightarrow> u \<in> set xs \<Longrightarrow> find (\<lambda>x. f x = f u) xs = Some u"
  by (induction xs) (auto simp: rev_image_eqI)

lemma register_preserves_wf:
  assumes wf: "wf_store s"
  shows "wf_store (snd (register_handler lib rq s))"
proof (cases "fst (fst (register_handler lib rq s)) = 201")
  case False
  with wf show ?thesis by (simp add: register_failure_unchanged)
next
  case True
  then have run: "register_handler lib rq s =
      ((201, snd (fst (register_handler lib rq s))), snd (register_handler lib rq s))"
    by (simp add: prod_eq_iff)
  from run show ?thesis
  proof (cases rule: register_success_cases)
    case (existing e u)
    from existing(4) have "u \<in> set (users s)"
      by (auto simp: user_findFirst_def dest: find_Some_set)
    with wf existing(2) show ?thesis
      unfolding existing(7) by (auto simp: wf_store_def)
  next
    case (created e)
    with wf show ?thesis
      unfolding created(6) by (auto simp: wf_store_def new_user_fields)
  qed
qed

lemma register_success_unique:
  assumes wf: "wf_store s"
    and run: "register_handler lib rq s = ((201, RegistrationCreated msg r), s1)"
  shows "filter (\<lambda>x. userId x = userId r \<and> eventId x = req_id rq) (registrations s1) = [r]"
  using run
proof (cases rule: register_success_cases)
  case (existing e u)
  from existing(5) have "filter (\<lambda>x. userId x = user_id u \<and> eventId x = req_id rq) (registrations s) = []"
    by (simp add: registration_findFirst_def find_None_filter)
  with existing(6,7) show ?thesis by simp
next
  case (created e)
  have "filter (\<lambda>x. userId x = nextUserId s \<and> eventId x = req_id rq) (registrations s) = []"
  proof (rule filter_False, rule ballI)
    fix x assume "x \<in> set (registrations s)"
    with wf have "userId x < nextUserId s" by (auto simp: wf_store_def)
    then show "\<not> (userId x = nextUserId s \<and> eventId x = req_id rq)" by simp
  qed
  with created(5,6) show ?thesis by simp
qed

lemma filter_findMany:
  "filter (\<lambda>(x, v). Q x) (registration_findMany i s) =
   map (\<lambda>r. (r, map_option view_of (find (\<lambda>u. user_id u = userId r) (users s))))
     (sort_key createdAt (filter (\<lambda>x. Q x \<and> eventId x = i) (registrations s)))"
  by (simp add: registration_findMany_def filter_map comp_def filter_sort conj_commute)

lemma findMany_cong:
  assumes "\<And>x. x \<in> set (registrations s) \<Longrightarrow> eventId x = i \<Longrightarrow>
      P (x, map_option view_of (find (\<lambda>u. user_id u = userId x) (users s))) = Q x"
  shows "filter P (registration_findMany i s) = filter (\<lambda>(x, v). Q x) (registration_findMany i s)"
  by (rule filter_cong) (auto simp: registration_findMany_def assms)

lemma registered_user_known:
  assumes run: "register_handler lib rq s = ((201, RegistrationCreated msg r), s1)"
  shows "\<exists>u.
    user_findFirst (b_email (req_body rq)) (trim lib (b_senecaId (req_body rq))) s1 = Some u \<and>
    user_id u = userId r \<and> u \<in> set (users s1) \<and>
    (user_findFirst (b_email (req_body rq)) (trim lib (b_senecaId (req_body rq))) s = None \<longrightarrow>
       users s1 = users s @ [u] \<and> view_of u = submitted_view lib (req_body rq))"
  using run
proof (cases rule: register_success_cases)
  case (existing e u)
  then show ?thesis
    by (intro exI [of _ u]) (auto simp: user_findFirst_def dest: find_Some_set)
next
  case (created e)
  then show ?thesis
    by (intro exI [of _ "fst (new_user_for rq (register_sanitize lib (req_body rq)) s)"])
       (auto simp: user_findFirst_def find_append_None new_user_fields valid_sanitized
          view_of_def submitted_view_def)
qed

section \<open>Registering for an event that does not exist\<close>

text \<open>
  Claim C5. When the \<^verbatim>\<open>:id\<close> of the request names no event, the handler leaves the
  store as it was, whatever the body: no user row and no registration row is written.
  For a body that passes the validator chain (a participant record as the operation
  takes it) the answer is 404 with the message \<^verbatim>\<open>Event not found\<close>.
\<close>

theorem register_unknown_event:
  "events s (req_id rq) = None \<Longrightarrow>
   snd (register_handler lib rq s) = s \<and>
   (register_validation lib (req_body rq) = [] \<longrightarrow>
      register_handler lib rq s = ((404, ErrorMsg ''Event not found''), s))"
  by (simp add: register_handler_def event_findUnique_def Let_def)

text \<open>The theorem at a concrete request and store.\<close>

theorem register_unknown_event_witness:
  "register_handler sample_lib ((sample_request alice_body 5)\<lparr>req_id := ''e404''\<rparr>)
     (sample_store None 0) =
   ((404, ErrorMsg ''Event not found''), sample_store None 0)"
proof -
  have missing: "events (sample_store None 0)
      (req_id ((sample_request alice_body 5)\<lparr>req_id := ''e404''\<rparr>)) = None"
    by (simp add: sample_defs)
  have valid: "register_validation sample_lib
      (req_body ((sample_request alice_body 5)\<lparr>req_id := ''e404''\<rparr>)) = []"
    by (simp add: sample_defs register_validation_def sample_trim_def is_space_def)
  from register_unknown_event [OF missing, of sample_lib] valid show ?thesis
    by blast
qed

section \<open>The order of the checks\<close>

text \<open>
  For a body that passes validation the handler decides in this order: an unknown
  event gives 404; otherwise an event whose ceiling is set, not 0 and reached gives
  400 \<^verbatim>\<open>Event is at full capacity\<close>, whoever asks; otherwise the participant is
  looked up by e-mail or Seneca id, and a participant found with a registration for
  the event gives 400 \<^verbatim>\<open>Already registered for this event\<close>; in every remaining
  case the request succeeds with 201.
\<close>

lemma at_full_capacity_iff:
  "at_full_capacity e \<longleftrightarrow> (\<exists>m. maxCapacity e = Some m \<and> m \<noteq> 0 \<and> m \<le> currentCapacity e)"
  by (simp add: at_full_capacity_def split: option.splits)

lemma register_check_order:
  "register_validation lib (req_body rq) = [] \<Longrightarrow>
   (events s (req_id rq) = None \<longrightarrow>
      register_handler lib rq s = ((404, ErrorMsg ''Event not found''), s)) \<and>
   (\<forall>e m. events s (req_id rq) = Some e \<and> maxCapacity e = Some m \<and> m \<noteq> 0 \<and>
      m \<le> currentCapacity e \<longrightarrow>
      register_handler lib rq s = ((400, ErrorMsg ''Event is at full capacity''), s)) \<and>
   (\<forall>e u r. events s (req_id rq) = Some e \<and> \<not> at_full_capacity e \<and>
      user_findFirst (b_email (req_body rq)) (trim lib (b_senecaId (req_body rq))) s = Some u \<and>
      registration_findFirst (user_id u) (req_id rq) s = Some r \<longrightarrow>
      register_handler lib rq s = ((400, ErrorMsg ''Already registered for this event''), s)) \<and>
   (\<forall>e. events s (req_id rq) = Some e \<and> \<not> at_full_capacity e \<and>
      (\<forall>u. user_findFirst (b_email (req_body rq)) (trim lib (b_senecaId (req_body rq))) s = Some u \<longrightarrow>
           registration_findFirst (user_id u) (req_id rq) s = None) \<longrightarrow>
      fst (fst (register_handler lib rq s)) = 201)"
  apply (intro conjI allI impI)
     apply (simp add: register_handler_def event_findUnique_def Let_def)
    apply (simp add: register_handler_def event_findUnique_def at_full_capacity_def Let_def)
   apply (simp add: register_handler_def event_findUnique_def Let_def register_sanitize_def)
  apply (cases "user_findFirst (b_email (req_body rq)) (trim lib (b_senecaId (req_body rq))) s")
   apply (simp add: register_handler_def event_findUnique_def Let_def register_sanitize_def
      new_user_for_def user_create_def create_and_count_unfold)
  apply (simp add: register_handler_def event_findUnique_def Let_def register_sanitize_def
      create_and_count_unfold)
  done

text \<open>
  With ceiling 1 and counter 1 the capacity error goes also to Alice, who is
  already registered.
\<close>

lemma register_check_order_full_event:
  "maxCapacity (sample_event (Some 1) 1) = Some 1 \<and> currentCapacity (sample_event (Some 1) 1) = 1 \<and>
   user_findFirst (b_email alice_body) (trim sample_lib (b_senecaId alice_body)) full_store = Some alice \<and>
   registration_findFirst (user_id alice) ''e1'' full_store =
     Some \<lparr>reg_id = 1, userId = 1, eventId = ''e1'', createdAt = 10\<rparr> \<and>
   register_handler sample_lib (sample_request alice_body 5) full_store =
     ((400, ErrorMsg ''Event is at full capacity''), full_store)"
proof -
  have valid: "register_validation sample_lib (req_body (sample_request alice_body 5)) = []"
    by (simp add: sample_defs register_validation_def sample_trim_def is_space_def)
  have ev: "events full_store (req_id (sample_request alice_body 5)) = Some (sample_event (Some 1) 1)"
    by (simp add: sample_defs)
  have full: "maxCapacity (sample_event (Some 1) 1) = Some 1 \<and> (1::int) \<noteq> 0 \<and>
      1 \<le> currentCapacity (sample_event (Some 1) 1)"
    by (simp add: sample_defs)
  have known: "user_findFirst (b_email alice_body) (trim sample_lib (b_senecaId alice_body)) full_store = Some alice"
    by (simp add: sample_defs user_findFirst_def sample_trim_def is_space_def)
  have dup: "registration_findFirst (user_id alice) ''e1'' full_store =
     Some \<lparr>reg_id = 1, userId = 1, eventId = ''e1'', createdAt = 10\<rparr>"
    by (simp add: sample_defs registration_findFirst_def)
  from register_check_order [OF valid, of full_store] ev full
  have "register_handler sample_lib (sample_request alice_body 5) full_store =
     ((400, ErrorMsg ''Event is at full capacity''), full_store)"
    by blast
  with full known dup show ?thesis by (simp add: sample_event_def)
qed

text \<open>
  Claim C3 gives the order of the checks and concludes that a full event answers
  the capacity error also to a participant who is already registered. The order is
  the handler's, as shown above, but its capacity test
  \<^verbatim>\<open>event.maxCapacity && event.currentCapacity >= event.maxCapacity\<close> is falsy for a
  ceiling of 0 and then skips the capacity step. The update route accepts a body
  that sets the ceiling to 0. On the store that this makes of \<open>full_store\<close>, with
  counter 1 above ceiling 0 and Alice registered, Alice's request is answered
  \<^verbatim>\<open>Already registered for this event\<close> and not with the capacity error, and
  Bob's request is answered 201.
\<close>

theorem zero_ceiling_duplicate_before_capacity:
  "update_handler sample_lib admin ''e1'' zero_ceiling full_store =
     ((200, EventBody (sample_event (Some 0) 1)), zero_store) \<and>
   events zero_store ''e1'' = Some (sample_event (Some 0) 1) \<and>
   maxCapacity (sample_event (Some 0) 1) = Some 0 \<and>
   currentCapacity (sample_event (Some 0) 1) = 1 \<and>
   registration_findFirst (user_id alice) ''e1'' zero_store =
     Some \<lparr>reg_id = 1, userId = 1, eventId = ''e1'', createdAt = 10\<rparr> \<and>
   register_handler sample_lib (sample_request alice_body 5) zero_store =
     ((400, ErrorMsg ''Already registered for this event''), zero_store) \<and>
   fst (register_handler sample_lib (sample_request bob_body 6) zero_store) =
     (201, RegistrationCreated ''Successfully registered for event''
        \<lparr>reg_id = 2, userId = 2, eventId = ''e1'', createdAt = 6\<rparr>) \<and>
   events (snd (register_handler sample_lib (sample_request bob_body 6) zero_store)) ''e1'' =
     Some (sample_event (Some 0) 2)"
  by (simp add: sample_defs handler_defs update_handler_def update_validation_def
      optional_check_def update_sanitize_def event_update_def apply_patch_def or_keep_def Let_def)

section \<open>The effect of a successful registration\<close>

text \<open>
  Claim C4. A call that answers 201 appends exactly one registration row, which links
  the participant its lookup resolves to (found or newly created) with the event of
  the request, leaves every earlier registration row in place, and raises the
  \<^verbatim>\<open>currentCapacity\<close> of that event by exactly 1, touching no other event.
\<close>

theorem register_success_effect:
  "register_handler lib rq s = ((201, bd), s1) \<Longrightarrow>
   \<exists>r e u.
     bd = RegistrationCreated ''Successfully registered for event'' r \<and>
     registrations s1 = registrations s @ [r] \<and>
     eventId r = req_id rq \<and>
     user_findFirst (b_email (req_body rq)) (trim lib (b_senecaId (req_body rq))) s1 = Some u \<and>
     userId r = user_id u \<and>
     events s (req_id rq) = Some e \<and>
     events s1 = (events s)(req_id rq \<mapsto> e\<lparr>currentCapacity := currentCapacity e + 1\<rparr>)"
proof (erule register_success_cases)
  fix e u
  assume "user_findFirst (b_email (req_body rq)) (trim lib (b_senecaId (req_body rq))) s = Some u"
    and "events s (req_id rq) = Some e"
    and "bd = RegistrationCreated ''Successfully registered for event''
              \<lparr>reg_id = nextRegistrationId s, userId = user_id u, eventId = req_id rq,
               createdAt = req_now rq\<rparr>"
    and "s1 = s\<lparr>registrations := registrations s @
                 [\<lparr>reg_id = nextRegistrationId s, userId = user_id u, eventId = req_id rq,
                   createdAt = req_now rq\<rparr>],
               nextRegistrationId := Suc (nextRegistrationId s),
               events := (events s)(req_id rq \<mapsto> e\<lparr>currentCapacity := currentCapacity e + 1\<rparr>)\<rparr>"
  then show ?thesis
    by (simp add: user_findFirst_def)
next
  fix e
  assume none: "user_findFirst (b_email (req_body rq)) (trim lib (b_senecaId (req_body rq))) s = None"
    and "events s (req_id rq) = Some e"
    and "bd = RegistrationCreated ''Successfully registered for event''
              \<lparr>reg_id = nextRegistrationId s, userId = nextUserId s, eventId = req_id rq,
               createdAt = req_now rq\<rparr>"
    and "s1 = s\<lparr>users := users s @ [fst (new_user_for rq (register_sanitize lib (req_body rq)) s)],
               nextUserId := Suc (nextUserId s),
               registrations := registrations s @
                 [\<lparr>reg_id = nextRegistrationId s, userId = nextUserId s, eventId = req_id rq,
                   createdAt = req_now rq\<rparr>],
               nextRegistrationId := Suc (nextRegistrationId s),
               events := (events s)(req_id rq \<mapsto> e\<lparr>currentCapacity := currentCapacity e + 1\<rparr>)\<rparr>"
  then show ?thesis
    by (simp add: user_findFirst_def find_append_None new_user_fields valid_sanitized)
qed

text \<open>The theorem at a concrete request and store.\<close>

theorem register_success_effect_witness:
  "\<exists>r. register_handler sample_lib (sample_request alice_body 5) alice_store =
         ((201, RegistrationCreated ''Successfully registered for event'' r),
          snd (register_handler sample_lib (sample_request alice_body 5) alice_store)) \<and>
       registrations (snd (register_handler sample_lib (sample_request alice_body 5) alice_store)) =
         registrations alice_store @ [r] \<and>
       userId r = user_id alice \<and> eventId r = ''e1'' \<and>
       events (snd (register_handler sample_lib (sample_request alice_body 5) alice_store)) =
         [''e1'' \<mapsto> sample_event None 1]"
proof -
  define s1 where "s1 = snd (register_handler sample_lib (sample_request alice_body 5) alice_store)"
  define bd where "bd = snd (fst (register_handler sample_lib (sample_request alice_body 5) alice_store))"
  have "fst (fst (register_handler sample_lib (sample_request alice_body 5) alice_store)) = 201"
    by (simp add: sample_defs handler_defs Let_def)
  then have run: "register_handler sample_lib (sample_request alice_body 5) alice_store =
      ((201, bd), s1)"
    by (simp add: s1_def bd_def prod_eq_iff)
  have rid: "req_id (sample_request alice_body 5) = ''e1''"
    by (simp add: sample_defs)
  have ev: "events alice_store ''e1'' = Some (sample_event None 0)"
    by (simp add: sample_defs)
  have who: "user_findFirst (b_email (req_body (sample_request alice_body 5)))
       (trim sample_lib (b_senecaId (req_body (sample_request alice_body 5)))) s1 = Some alice"
    unfolding s1_def by (simp add: sample_defs handler_defs Let_def)
  from register_success_effect [OF run] obtain r e u where
    r: "bd = RegistrationCreated ''Successfully registered for event'' r"
      "registrations s1 = registrations alice_store @ [r]"
      "eventId r = req_id (sample_request alice_body 5)"
      "user_findFirst (b_email (req_body (sample_request alice_body 5)))
         (trim sample_lib (b_senecaId (req_body (sample_request alice_body 5)))) s1 = Some u"
      "userId r = user_id u"
      "events alice_store (req_id (sample_request alice_body 5)) = Some e"
      "events s1 = (events alice_store)(req_id (sample_request alice_body 5) \<mapsto>
          e\<lparr>currentCapacity := currentCapacity e + 1\<rparr>)"
    by blast
  from r(4) who have "u = alice" by simp
  moreover from r(6) rid ev have "e = sample_event None 0" by simp
  moreover have "(events alice_store)(''e1'' \<mapsto> (sample_event None 0)\<lparr>currentCapacity := currentCapacity (sample_event None 0) + 1\<rparr>)
      = [''e1'' \<mapsto> sample_event None 1]"
    by (simp add: sample_defs)
  ultimately show ?thesis
    using r run rid unfolding s1_def [symmetric] by auto
qed

section \<open>Who may list registrations\<close>

text \<open>
  Claim C8. A caller whose role is not \<^verbatim>\<open>ADMIN\<close> gets 403
  \<^verbatim>\<open>Admin access required\<close>, and the answer is the same whatever the store holds:
  nothing is read. An administrator gets 200 with exactly the registration rows of
  the event, each with the selected columns of its user, in ascending order of
  \<^verbatim>\<open>createdAt\<close>.
\<close>

theorem registrations_admin_only:
  "(role usr \<noteq> ''ADMIN'' \<longrightarrow>
      registrations_handler usr i s = (403, ErrorMsg ''Admin access required'') \<and>
      registrations_handler usr i s' = registrations_handler usr i s) \<and>
   (role usr = ''ADMIN'' \<longrightarrow>
      (\<exists>rows. registrations_handler usr i s = (200, RegistrationList rows) \<and>
         sorted (map (createdAt \<circ> fst) rows) \<and>
         mset (map fst rows) = mset (filter (\<lambda>r. eventId r = i) (registrations s)) \<and>
         (\<forall>(r, v) \<in> set rows.
            v = map_option view_of (find (\<lambda>u. user_id u = userId r) (users s)))))"
proof (intro conjI impI)
  assume "role usr = ''ADMIN''"
  then have "registrations_handler usr i s = (200, RegistrationList (registration_findMany i s))"
    by (simp add: registrations_handler_def)
  moreover have "sorted (map (createdAt \<circ> fst) (registration_findMany i s))"
    by (simp add: registration_findMany_def comp_def)
  moreover have "mset (map fst (registration_findMany i s)) =
      mset (filter (\<lambda>r. eventId r = i) (registrations s))"
    by (simp add: registration_findMany_def comp_def)
  moreover have "\<forall>(r, v) \<in> set (registration_findMany i s).
      v = map_option view_of (find (\<lambda>u. user_id u = userId r) (users s))"
    by (auto simp: registration_findMany_def)
  ultimately show "\<exists>rows. registrations_handler usr i s = (200, RegistrationList rows) \<and>
         sorted (map (createdAt \<circ> fst) rows) \<and>
         mset (map fst rows) = mset (filter (\<lambda>r. eventId r = i) (registrations s)) \<and>
         (\<forall>(r, v) \<in> set rows.
            v = map_option view_of (find (\<lambda>u. user_id u = userId r) (users s)))"
    by blast
qed (simp_all add: registrations_handler_def)

text \<open>The theorem at a concrete request and store.\<close>

theorem registrations_admin_only_witness:
  "registrations_handler member ''e1'' busy_store = (403, ErrorMsg ''Admin access required'') \<and>
   registrations_handler admin ''e1'' busy_store =
     (200, RegistrationList
        [(\<lparr>reg_id = 2, userId = 1, eventId = ''e1'', createdAt = 10\<rparr>, Some (view_of alice)),
         (\<lparr>reg_id = 1, userId = 2, eventId = ''e1'', createdAt = 20\<rparr>, Some (view_of bob))])"
proof -
  have m: "role member \<noteq> ''ADMIN''" by (simp add: member_def)
  have a: "role admin = ''ADMIN''" by (simp add: admin_def)
  from registrations_admin_only [of member "''e1''" busy_store busy_store] m
  have "registrations_handler member ''e1'' busy_store = (403, ErrorMsg ''Admin access required'')"
    by blast
  moreover from registrations_admin_only [of admin "''e1''" busy_store busy_store] a
  obtain rows where "registrations_handler admin ''e1'' busy_store = (200, RegistrationList rows)"
    by blast
  then have "registrations_handler admin ''e1'' busy_store =
     (200, RegistrationList
        [(\<lparr>reg_id = 2, userId = 1, eventId = ''e1'', createdAt = 10\<rparr>, Some (view_of alice)),
         (\<lparr>reg_id = 1, userId = 2, eventId = ''e1'', createdAt = 20\<rparr>, Some (view_of bob))])"
    by (simp add: registrations_handler_def registration_findMany_def busy_store_def
        alice_def bob_def admin_def)
  ultimately show ?thesis by simp
qed

section \<open>Listing the registrations of an unknown event\<close>

text \<open>
  Claim C10. The listing route never looks the event up. On a well-formed store,
  where every registration row references an existing event, an administrator
  asking for an id that names no event gets 200 with the empty list, not 404.
\<close>

theorem registrations_unknown_event:
  "wf_store s \<Longrightarrow> events s i = None \<Longrightarrow> role usr = ''ADMIN'' \<Longrightarrow>
   registrations_handler usr i s = (200, RegistrationList [])"
proof -
  assume wf: "wf_store s" and none: "events s i = None" and adm: "role usr = ''ADMIN''"
  have "filter (\<lambda>r. eventId r = i) (registrations s) = []"
  proof (rule filter_False, rule ballI)
    fix r assume "r \<in> set (registrations s)"
    with wf have "events s (eventId r) \<noteq> None" by (simp add: wf_store_def)
    with none show "\<not> eventId r = i" by auto
  qed
  with adm show ?thesis
    by (simp add: registrations_handler_def registration_findMany_def)
qed

text \<open>The theorem at a concrete request and store.\<close>

theorem registrations_unknown_event_witness:
  "registrations_handler admin ''e404'' busy_store = (200, RegistrationList [])"
proof -
  have wf: "wf_store busy_store"
    by (simp add: wf_store_def busy_store_def alice_def bob_def)
  have none: "events busy_store ''e404'' = None"
    by (simp add: busy_store_def)
  have adm: "role admin = ''ADMIN''" by (simp add: admin_def)
  from registrations_unknown_event [OF wf none adm] show ?thesis .
qed

section \<open>A failed notification stays silent\<close>

text \<open>
  Claim C9. For a contact form that passes validation and whose row is stored, the
  answer is 201 with the id of the stored row, and the row is in the table, whether
  the notification mail is delivered or \<^verbatim>\<open>sendMail\<close> throws; a failed send leaves
  only a line in the error log. A failed insert, in contrast, is surfaced as 500.
\<close>

theorem contact_mail_failure_silent:
  "contact_validation lib b = [] \<Longrightarrow>
   contactMessage_create (contact_sanitize lib b) s = (m, s1) \<Longrightarrow>
   fst (contact_handler lib True delivered b s) =
     (201, ContactCreated ''Contact form submitted successfully'' (msg_id m)) \<and>
   fst (snd (contact_handler lib True delivered b s)) = s1 \<and>
   m \<in> set (contactMessages s1) \<and>
   snd (snd (contact_handler lib True False b s)) =
     [ErrorLogged ''Failed to send email notification:''] \<and>
   contact_handler lib False delivered b s =
     ((500, ErrorMsg ''Failed to submit contact form''), s,
      [ErrorLogged ''Error submitting contact form:''])"
  by (auto simp: contact_handler_def contactMessage_create_def Let_def)

text \<open>The theorem at a concrete request and store.\<close>

theorem contact_mail_failure_silent_witness:
  "contact_handler sample_lib True False sample_contact (sample_store None 0) =
     ((201, ContactCreated ''Contact form submitted successfully'' 1),
      snd (contactMessage_create (contact_sanitize sample_lib sample_contact) (sample_store None 0)),
      [ErrorLogged ''Failed to send email notification:''])"
proof -
  have valid: "contact_validation sample_lib sample_contact = []"
    by (simp add: contact_validation_def sample_contact_def sample_lib_def sample_isLength_def
        sample_isEmail_def sample_trim_def
        is_space_def)
  obtain m s1 where c: "contactMessage_create (contact_sanitize sample_lib sample_contact) (sample_store None 0) = (m, s1)"
    by (cases "contactMessage_create (contact_sanitize sample_lib sample_contact) (sample_store None 0)")
  then have "msg_id m = 1"
    by (auto simp: contactMessage_create_def sample_store_def Let_def)
  with contact_mail_failure_silent [OF valid c, of False] c show ?thesis
    by (simp add: prod_eq_iff)
qed

section \<open>The capacity invariant\<close>

text \<open>
  Claim C2, as amended. Take an event whose counter does not exceed its ceiling.
  A registration request keeps that true when the ceiling is not 0: at a reached
  ceiling it answers 400 \<^verbatim>\<open>Event is at full capacity\<close> and writes nothing, below it
  the counter grows by one and stays within the ceiling. An update whose body
  writes neither \<^verbatim>\<open>maxCapacity\<close> nor \<^verbatim>\<open>currentCapacity\<close> keeps it true as well.
\<close>

theorem capacity_invariant_preserved:
  "events s i = Some e \<Longrightarrow> within_capacity e \<Longrightarrow>
   (maxCapacity e \<noteq> Some 0 \<longrightarrow>
      (\<exists>e'. events (snd (register_handler lib rq s)) i = Some e' \<and> within_capacity e')) \<and>
   (at_full_capacity e \<and> req_id rq = i \<longrightarrow>
      snd (register_handler lib rq s) = s \<and>
      (register_validation lib (req_body rq) = [] \<longrightarrow>
         fst (register_handler lib rq s) = (400, ErrorMsg ''Event is at full capacity''))) \<and>
   (p_maxCapacity p = None \<and> p_currentCapacity p = None \<longrightarrow>
      (\<exists>e'. events (snd (update_handler lib usr j p s)) i = Some e' \<and> within_capacity e'))"
proof (intro conjI impI)
  assume ev: "events s i = Some e" and inv: "within_capacity e"
  {
    assume nz: "maxCapacity e \<noteq> Some 0"
    show "\<exists>e'. events (snd (register_handler lib rq s)) i = Some e' \<and> within_capacity e'"
    proof (cases "fst (fst (register_handler lib rq s)) = 201 \<and> i = req_id rq")
      case False
      with ev inv show ?thesis by (auto simp: register_events)
    next
      case True
      then have run: "register_handler lib rq s =
          ((201, snd (fst (register_handler lib rq s))), snd (register_handler lib rq s))"
        by (simp add: prod_eq_iff)
      from run True ev have "\<not> at_full_capacity e"
        by (elim register_success_cases) auto
      with inv nz have "within_capacity (e\<lparr>currentCapacity := currentCapacity e + 1\<rparr>)"
        by (simp add: increment_within_capacity)
      with True ev show ?thesis by (simp add: register_events)
    qed
  }
  {
    assume full: "at_full_capacity e \<and> req_id rq = i"
    with ev show "snd (register_handler lib rq s) = s"
      by (simp add: register_handler_def event_findUnique_def Let_def)
    assume "register_validation lib (req_body rq) = []"
    with full ev show "fst (register_handler lib rq s) = (400, ErrorMsg ''Event is at full capacity'')"
      by (simp add: register_handler_def event_findUnique_def Let_def)
  }
  {
    assume p: "p_maxCapacity p = None \<and> p_currentCapacity p = None"
    with ev inv show "\<exists>e'. events (snd (update_handler lib usr j p s)) i = Some e' \<and> within_capacity e'"
      by (auto simp: update_events apply_patch_capacity)
  }
qed

text \<open>The theorem at a concrete request and store.\<close>

theorem capacity_invariant_preserved_witness:
  "events (snd (register_handler sample_lib (sample_request alice_body 5)
       (sample_store (Some 1) 0))) ''e1'' = Some (sample_event (Some 1) 1) \<and>
   within_capacity (sample_event (Some 1) 1) \<and>
   register_handler sample_lib (sample_request bob_body 6) full_store =
     ((400, ErrorMsg ''Event is at full capacity''), full_store) \<and>
   events (snd (update_handler sample_lib admin ''e1'' rename (sample_store (Some 1) 0))) ''e1'' =
     Some ((sample_event (Some 1) 0)\<lparr>title := ''Lab evening''\<rparr>) \<and>
   within_capacity ((sample_event (Some 1) 0)\<lparr>title := ''Lab evening''\<rparr>)"
proof -
  have ev: "events (sample_store (Some 1) 0) ''e1'' = Some (sample_event (Some 1) 0)"
    by (simp add: sample_defs)
  have inv: "within_capacity (sample_event (Some 1) 0)"
    by (simp add: sample_defs within_capacity_def)
  have nz: "maxCapacity (sample_event (Some 1) 0) \<noteq> Some 0"
    by (simp add: sample_defs)
  have pr: "p_maxCapacity rename = None \<and> p_currentCapacity rename = None"
    by (simp add: rename_def)
  note main = capacity_invariant_preserved [OF ev inv, of sample_lib "sample_request alice_body 5"
      rename admin "''e1''"]
  from main nz obtain e1 where
    e1: "events (snd (register_handler sample_lib (sample_request alice_body 5)
       (sample_store (Some 1) 0))) ''e1'' = Some e1" "within_capacity e1"
    by blast
  have "events (snd (register_handler sample_lib (sample_request alice_body 5)
       (sample_store (Some 1) 0))) ''e1'' = Some (sample_event (Some 1) 1)"
    by (simp add: sample_defs handler_defs Let_def)
  with e1 have c1: "events (snd (register_handler sample_lib (sample_request alice_body 5)
       (sample_store (Some 1) 0))) ''e1'' = Some (sample_event (Some 1) 1) \<and>
       within_capacity (sample_event (Some 1) 1)"
    by simp
  from main pr obtain e2 where
    e2: "events (snd (update_handler sample_lib admin ''e1'' rename (sample_store (Some 1) 0))) ''e1'' = Some e2"
      "within_capacity e2"
    by blast
  have "events (snd (update_handler sample_lib admin ''e1'' rename (sample_store (Some 1) 0))) ''e1'' =
     Some ((sample_event (Some 1) 0)\<lparr>title := ''Lab evening''\<rparr>)"
    by (simp add: sample_defs update_handler_def update_validation_def optional_check_def
        update_sanitize_def event_update_def apply_patch_def or_keep_def sample_trim_def is_space_def
        Let_def)
  with e2 have c3: "events (snd (update_handler sample_lib admin ''e1'' rename (sample_store (Some 1) 0))) ''e1'' =
     Some ((sample_event (Some 1) 0)\<lparr>title := ''Lab evening''\<rparr>) \<and>
     within_capacity ((sample_event (Some 1) 0)\<lparr>title := ''Lab evening''\<rparr>)"
    by simp
  have ev2: "events full_store ''e1'' = Some (sample_event (Some 1) 1)"
    by (simp add: sample_defs)
  have inv2: "within_capacity (sample_event (Some 1) 1)"
    by (simp add: sample_defs within_capacity_def)
  have full: "at_full_capacity (sample_event (Some 1) 1) \<and> req_id (sample_request bob_body 6) = ''e1''"
    by (simp add: sample_defs at_full_capacity_def)
  have valid: "register_validation sample_lib (req_body (sample_request bob_body 6)) = []"
    by (simp add: sample_defs register_validation_def sample_trim_def is_space_def)
  from capacity_invariant_preserved [OF ev2 inv2, of sample_lib "sample_request bob_body 6"
      rename admin "''e1''"] full valid
  have c2: "register_handler sample_lib (sample_request bob_body 6) full_store =
     ((400, ErrorMsg ''Event is at full capacity''), full_store)"
    by (simp add: prod_eq_iff)
  from c1 c2 c3 show ?thesis by simp
qed

text \<open>
  The claim as stated has the administrative update preserve the invariant for every
  body. The update route validates neither capacity column: on an event with 3
  registrations and ceiling 5, a body that sets the ceiling to 2 is accepted with 200
  and leaves the counter above the ceiling.
\<close>

theorem update_breaks_capacity_invariant:
  "events (sample_store (Some 5) 3) ''e1'' = Some (sample_event (Some 5) 3) \<and>
   within_capacity (sample_event (Some 5) 3) \<and>
   update_handler sample_lib admin ''e1'' lower_ceiling (sample_store (Some 5) 3) =
     ((200, EventBody (sample_event (Some 2) 3)),
      (sample_store (Some 5) 3)\<lparr>events := [''e1'' \<mapsto> sample_event (Some 2) 3]\<rparr>) \<and>
   \<not> within_capacity (sample_event (Some 2) 3)"
  by (simp add: sample_defs update_handler_def update_validation_def optional_check_def
      update_sanitize_def event_update_def apply_patch_def or_keep_def within_capacity_def Let_def)

text \<open>
  A ceiling of 0 is falsy in the handler's test, so such an event is registered for
  like one without a ceiling.
\<close>

lemma zero_ceiling_is_no_ceiling:
  "within_capacity (sample_event (Some 0) 0) \<and>
   fst (fst (register_handler sample_lib (sample_request alice_body 5) (sample_store (Some 0) 0))) = 201 \<and>
   events (snd (register_handler sample_lib (sample_request alice_body 5) (sample_store (Some 0) 0))) ''e1'' =
     Some (sample_event (Some 0) 1) \<and>
   \<not> within_capacity (sample_event (Some 0) 1)"
  by (simp add: sample_defs handler_defs within_capacity_def Let_def)

section \<open>A second registration by the same participant\<close>

text \<open>
  Claim C6, as amended. After a registration that answered 201, take a second valid
  request for the same event whose lookup by e-mail or Seneca id resolves to the
  participant just registered; a body with the same e-mail and the same Seneca id
  always does. The second request fails and leaves the store as it is, so no
  registration is created and the counter is unchanged: with the capacity error when
  the first registration filled the event, with \<^verbatim>\<open>Already registered for this event\<close>
  otherwise. On a well-formed store the participant then holds exactly one
  registration for the event.
\<close>

theorem second_registration_rejected:
  assumes first: "register_handler lib rq s = ((201, RegistrationCreated msg r), s1)"
    and valid: "register_validation lib (req_body rq') = []"
    and same_event: "req_id rq' = req_id rq"
  shows "(b_email (req_body rq') = b_email (req_body rq) \<and>
          trim lib (b_senecaId (req_body rq')) = trim lib (b_senecaId (req_body rq)) \<longrightarrow>
            map_option user_id
              (user_findFirst (b_email (req_body rq')) (trim lib (b_senecaId (req_body rq'))) s1) =
            Some (userId r)) \<and>
         (map_option user_id
            (user_findFirst (b_email (req_body rq')) (trim lib (b_senecaId (req_body rq'))) s1) =
          Some (userId r) \<longrightarrow>
            (\<exists>e. events s1 (req_id rq) = Some e \<and>
                 register_handler lib rq' s1 =
                   ((400, ErrorMsg (if at_full_capacity e then ''Event is at full capacity''
                                    else ''Already registered for this event'')), s1))) \<and>
         (wf_store s \<longrightarrow>
            filter (\<lambda>x. userId x = userId r \<and> eventId x = req_id rq) (registrations s1) = [r])"
proof (intro conjI impI)
  assume "wf_store s"
  from register_success_unique [OF this first]
  show "filter (\<lambda>x. userId x = userId r \<and> eventId x = req_id rq) (registrations s1) = [r]" .
next
  assume same: "b_email (req_body rq') = b_email (req_body rq) \<and>
          trim lib (b_senecaId (req_body rq')) = trim lib (b_senecaId (req_body rq))"
  from first show "map_option user_id
      (user_findFirst (b_email (req_body rq')) (trim lib (b_senecaId (req_body rq'))) s1) =
      Some (userId r)"
  proof (cases rule: register_success_cases)
    case (existing e u)
    with same show ?thesis by (simp add: user_findFirst_def)
  next
    case (created e)
    with same show ?thesis
      by (simp add: user_findFirst_def find_append_None new_user_fields valid_sanitized)
  qed
next
  assume who: "map_option user_id
      (user_findFirst (b_email (req_body rq')) (trim lib (b_senecaId (req_body rq'))) s1) =
      Some (userId r)"
  then obtain u where u: "user_findFirst (b_email (req_body rq')) (trim lib (b_senecaId (req_body rq'))) s1 = Some u"
    "user_id u = userId r"
    by auto
  from first have regs: "registrations s1 = registrations s @ [r]" "eventId r = req_id rq"
    by (cases rule: register_success_cases; simp)+
  from first obtain e where e: "events s1 (req_id rq) = Some e"
    by (cases rule: register_success_cases; simp)
  from regs u(2) have "find (\<lambda>x. userId x = user_id u \<and> eventId x = req_id rq) (registrations s1) \<noteq> None"
    by (auto simp: find_None_iff)
  then obtain r' where "registration_findFirst (user_id u) (req_id rq) s1 = Some r'"
    by (auto simp: registration_findFirst_def)
  with valid same_event e u(1)
  have "register_handler lib rq' s1 =
      ((400, ErrorMsg (if at_full_capacity e then ''Event is at full capacity''
                       else ''Already registered for this event'')), s1)"
    by (simp add: register_handler_def event_findUnique_def Let_def valid_sanitized)
  with e show "\<exists>e. events s1 (req_id rq) = Some e \<and>
      register_handler lib rq' s1 =
        ((400, ErrorMsg (if at_full_capacity e then ''Event is at full capacity''
                         else ''Already registered for this event'')), s1)"
    by blast
qed

text \<open>The theorem at a concrete request and store.\<close>

theorem second_registration_rejected_witness:
  "fst (fst (register_handler sample_lib (sample_request alice_body 5) (sample_store None 0))) = 201 \<and>
   register_handler sample_lib (sample_request alice_body 6)
       (snd (register_handler sample_lib (sample_request alice_body 5) (sample_store None 0))) =
     ((400, ErrorMsg ''Already registered for this event''),
      snd (register_handler sample_lib (sample_request alice_body 5) (sample_store None 0))) \<and>
   length (registrations
       (snd (register_handler sample_lib (sample_request alice_body 5) (sample_store None 0)))) = 1"
proof -
  define s1 where "s1 = snd (register_handler sample_lib (sample_request alice_body 5) (sample_store None 0))"
  define r where "r = \<lparr>reg_id = 1, userId = 1, eventId = ''e1'', createdAt = 5\<rparr>"
  have first: "register_handler sample_lib (sample_request alice_body 5) (sample_store None 0) =
      ((201, RegistrationCreated ''Successfully registered for event'' r), s1)"
    unfolding s1_def r_def by (simp add: sample_defs handler_defs Let_def)
  have valid: "register_validation sample_lib (req_body (sample_request alice_body 6)) = []"
    by (simp add: sample_defs register_validation_def sample_trim_def is_space_def)
  have same_event: "req_id (sample_request alice_body 6) = req_id (sample_request alice_body 5)"
    by (simp add: sample_defs)
  have same: "b_email (req_body (sample_request alice_body 6)) = b_email (req_body (sample_request alice_body 5)) \<and>
      trim sample_lib (b_senecaId (req_body (sample_request alice_body 6))) =
      trim sample_lib (b_senecaId (req_body (sample_request alice_body 5)))"
    by (simp add: sample_defs)
  have wf: "wf_store (sample_store None 0)"
    by (simp add: wf_store_def sample_defs)
  note main = second_registration_rejected [OF first valid same_event]
  from main same obtain e where
    e: "events s1 (req_id (sample_request alice_body 5)) = Some e"
      "register_handler sample_lib (sample_request alice_body 6) s1 =
         ((400, ErrorMsg (if at_full_capacity e then ''Event is at full capacity''
                          else ''Already registered for this event'')), s1)"
    by blast
  have "events s1 (req_id (sample_request alice_body 5)) = Some (sample_event None 1)"
    unfolding s1_def by (simp add: sample_defs handler_defs Let_def)
  with e(1) have "\<not> at_full_capacity e"
    by (simp add: sample_defs at_full_capacity_def)
  with e(2) have second: "register_handler sample_lib (sample_request alice_body 6) s1 =
      ((400, ErrorMsg ''Already registered for this event''), s1)"
    by simp
  from main wf have "filter (\<lambda>x. userId x = userId r \<and> eventId x = req_id (sample_request alice_body 5))
      (registrations s1) = [r]"
    by blast
  moreover have "registrations s1 = [r]"
    unfolding s1_def r_def by (simp add: sample_defs handler_defs Let_def)
  ultimately show ?thesis
    using first second unfolding s1_def [symmetric] by simp
qed

text \<open>
  The claim as stated promises \<^verbatim>\<open>Already registered\<close> for every second attempt. The
  capacity check comes first: when the first registration takes the last seat, the
  same participant's second attempt is answered with the capacity error.
\<close>

theorem second_registration_capacity_first:
  "fst (fst (register_handler sample_lib (sample_request alice_body 5) (sample_store (Some 1) 0))) = 201 \<and>
   fst (register_handler sample_lib (sample_request alice_body 6)
       (snd (register_handler sample_lib (sample_request alice_body 5) (sample_store (Some 1) 0)))) =
     (400, ErrorMsg ''Event is at full capacity'') \<and>
   ErrorMsg ''Event is at full capacity'' \<noteq> ErrorMsg ''Already registered for this event''"
  by (simp add: sample_defs handler_defs Let_def)

text \<open>
  Sharing one key with the registered participant is not enough when the other key
  belongs to a user the lookup meets first: the request is then booked on that user.
\<close>

lemma shared_key_resolves_elsewhere:
  "register_handler sample_lib (sample_request bob_body 5) club_store =
     ((201, RegistrationCreated ''Successfully registered for event''
         \<lparr>reg_id = 1, userId = 2, eventId = ''e1'', createdAt = 5\<rparr>),
      club_store\<lparr>registrations := [\<lparr>reg_id = 1, userId = 2, eventId = ''e1'', createdAt = 5\<rparr>],
                 nextRegistrationId := 2,
                 events := [''e1'' \<mapsto> sample_event None 1]\<rparr>) \<and>
   fst (register_handler sample_lib (sample_request mixed_body 6)
       (snd (register_handler sample_lib (sample_request bob_body 5) club_store))) =
     (201, RegistrationCreated ''Successfully registered for event''
         \<lparr>reg_id = 2, userId = 1, eventId = ''e1'', createdAt = 6\<rparr>)"
  by (simp add: sample_defs handler_defs Let_def)

section \<open>A registration shows up in the listing\<close>

text \<open>
  Claim C7, as amended. On a well-formed store, right after a registration that
  answered 201, the listing of the event holds exactly one entry for the participant
  the lookup resolved to: the new registration row, with that participant's stored
  columns. When the call created the participant (nobody had the e-mail or the
  Seneca id), exactly one entry of the listing shows the submitted fields, and it is
  that row.
\<close>

theorem listing_after_registration:
  assumes wf: "wf_store s"
    and first: "register_handler lib rq s = ((201, RegistrationCreated msg r), s1)"
    and adm: "role usr = ''ADMIN''"
  shows "\<exists>rows u.
      registrations_handler usr (req_id rq) s1 = (200, RegistrationList rows) \<and>
      user_findFirst (b_email (req_body rq)) (trim lib (b_senecaId (req_body rq))) s1 = Some u \<and>
      filter (\<lambda>(x, v). userId x = user_id u) rows = [(r, Some (view_of u))] \<and>
      (user_findFirst (b_email (req_body rq)) (trim lib (b_senecaId (req_body rq))) s = None \<longrightarrow>
         filter (\<lambda>(x, v). v = Some (submitted_view lib (req_body rq))) rows =
           [(r, Some (submitted_view lib (req_body rq)))])"
proof -
  let ?rows = "registration_findMany (req_id rq) s1"
  let ?join = "\<lambda>x. map_option view_of (find (\<lambda>u. user_id u = userId x) (users s1))"
  from first have s1: "s1 = snd (register_handler lib rq s)" by simp
  from wf have wf1: "wf_store s1" unfolding s1 by (rule register_preserves_wf)
  then have dist: "distinct (map user_id (users s1))" by (simp add: wf_store_def)
  from registered_user_known [OF first] obtain u where
    known: "user_findFirst (b_email (req_body rq)) (trim lib (b_senecaId (req_body rq))) s1 = Some u \<and>
      user_id u = userId r \<and> u \<in> set (users s1) \<and>
      (user_findFirst (b_email (req_body rq)) (trim lib (b_senecaId (req_body rq))) s = None \<longrightarrow>
         users s1 = users s @ [u] \<and> view_of u = submitted_view lib (req_body rq))"
    by (rule exE)
  then have u: "user_findFirst (b_email (req_body rq)) (trim lib (b_senecaId (req_body rq))) s1 = Some u"
      "user_id u = userId r" "u \<in> set (users s1)"
      "user_findFirst (b_email (req_body rq)) (trim lib (b_senecaId (req_body rq))) s = None \<Longrightarrow>
         users s1 = users s @ [u] \<and> view_of u = submitted_view lib (req_body rq)"
    by simp_all
  from dist u(3) have join_u: "find (\<lambda>x. user_id x = user_id u) (users s1) = Some u"
    by (rule find_by_key)
  have one: "filter (\<lambda>x. userId x = user_id u \<and> eventId x = req_id rq) (registrations s1) = [r]"
    using register_success_unique [OF wf first] u(2) by simp
  have mine: "filter (\<lambda>(x, v). userId x = user_id u) ?rows = [(r, Some (view_of u))]"
    by (simp add: filter_findMany one u(2) [symmetric] join_u)
  have fresh: "filter (\<lambda>(x, v). v = Some (submitted_view lib (req_body rq))) ?rows =
      [(r, Some (submitted_view lib (req_body rq)))]"
    if none: "user_findFirst (b_email (req_body rq)) (trim lib (b_senecaId (req_body rq))) s = None"
  proof -
    from u(4) [OF none] have us: "users s1 = users s @ [u]"
      and vu: "view_of u = submitted_view lib (req_body rq)" by simp_all
    have old: "email y \<noteq> b_email (req_body rq)" if "y \<in> set (users s)" for y
      using none that by (auto simp: user_findFirst_def find_None_iff)
    have "filter (\<lambda>(x, v). v = Some (submitted_view lib (req_body rq))) ?rows =
        filter (\<lambda>(x, v). userId x = user_id u) ?rows"
    proof (rule findMany_cong)
      fix x assume "x \<in> set (registrations s1)" "eventId x = req_id rq"
      show "(case (x, ?join x) of (x, v) \<Rightarrow> v = Some (submitted_view lib (req_body rq))) =
          (userId x = user_id u)"
      proof
        assume "userId x = user_id u"
        with join_u vu show "case (x, ?join x) of (x, v) \<Rightarrow> v = Some (submitted_view lib (req_body rq))"
          by simp
      next
        assume "case (x, ?join x) of (x, v) \<Rightarrow> v = Some (submitted_view lib (req_body rq))"
        then obtain y where y: "find (\<lambda>u. user_id u = userId x) (users s1) = Some y"
          "view_of y = submitted_view lib (req_body rq)"
          by auto
        from y(1) have yin: "y \<in> set (users s1)" and yid: "user_id y = userId x"
          by (auto dest: find_Some_set)
        from y(2) have "email y = b_email (req_body rq)"
          by (simp add: view_of_def submitted_view_def)
        moreover from yin us have "y \<in> set (users s) \<or> y = u" by auto
        ultimately have "y = u" using old [of y] by blast
        with yid show "userId x = user_id u" by simp
      qed
    qed
    with mine vu show ?thesis by simp
  qed
  from adm have answer: "registrations_handler usr (req_id rq) s1 = (200, RegistrationList ?rows)"
    by (simp add: registrations_handler_def)
  show ?thesis
  proof (intro exI [of _ ?rows] exI [of _ u] conjI impI)
    show "registrations_handler usr (req_id rq) s1 = (200, RegistrationList ?rows)"
      by (fact answer)
    show "user_findFirst (b_email (req_body rq)) (trim lib (b_senecaId (req_body rq))) s1 = Some u"
      by (fact u(1))
    show "filter (\<lambda>(x, v). userId x = user_id u) ?rows = [(r, Some (view_of u))]"
      by (fact mine)
    show "filter (\<lambda>(x, v). v = Some (submitted_view lib (req_body rq))) ?rows =
        [(r, Some (submitted_view lib (req_body rq)))]"
      if "user_findFirst (b_email (req_body rq)) (trim lib (b_senecaId (req_body rq))) s = None"
      using that by (rule fresh)
  qed
qed

text \<open>The theorem at a concrete request and store.\<close>

theorem listing_after_registration_witness:
  "registrations_handler admin ''e1''
     (snd (register_handler sample_lib (sample_request alice_body 5) (sample_store None 0))) =
   (200, RegistrationList
      [(\<lparr>reg_id = 1, userId = 1, eventId = ''e1'', createdAt = 5\<rparr>,
        Some (submitted_view sample_lib alice_body))])"
proof -
  define s1 where "s1 = snd (register_handler sample_lib (sample_request alice_body 5) (sample_store None 0))"
  define r where "r = \<lparr>reg_id = 1, userId = 1, eventId = ''e1'', createdAt = 5\<rparr>"
  have wf: "wf_store (sample_store None 0)"
    by (simp add: wf_store_def sample_defs)
  have first: "register_handler sample_lib (sample_request alice_body 5) (sample_store None 0) =
      ((201, RegistrationCreated ''Successfully registered for event'' r), s1)"
    unfolding s1_def r_def by (simp add: sample_defs handler_defs Let_def)
  have adm: "role admin = ''ADMIN''" by (simp add: admin_def)
  have new: "user_findFirst (b_email (req_body (sample_request alice_body 5)))
      (trim sample_lib (b_senecaId (req_body (sample_request alice_body 5)))) (sample_store None 0) = None"
    by (simp add: sample_defs user_findFirst_def)
  have body: "req_body (sample_request alice_body 5) = alice_body"
    and rid: "req_id (sample_request alice_body 5) = ''e1''"
    by (simp_all add: sample_defs)
  from listing_after_registration [OF wf first adm] new obtain rows where
    rows: "registrations_handler admin (req_id (sample_request alice_body 5)) s1 =
        (200, RegistrationList rows)"
      "filter (\<lambda>(x, v). v = Some (submitted_view sample_lib (req_body (sample_request alice_body 5)))) rows =
        [(r, Some (submitted_view sample_lib (req_body (sample_request alice_body 5))))]"
    by blast
  have "registrations s1 = [r]"
    unfolding s1_def r_def by (simp add: sample_defs handler_defs Let_def)
  then have "length (registration_findMany ''e1'' s1) = 1"
    by (simp add: registration_findMany_def r_def)
  with rows(1) adm rid have "length rows = 1"
    by (simp add: registrations_handler_def)
  then obtain row where "rows = [row]"
    by (cases rows) auto
  with rows(2) have "rows = [(r, Some (submitted_view sample_lib alice_body))]"
    by (simp add: body split: if_splits)
  with rows(1) rid show ?thesis
    unfolding s1_def r_def by simp
qed

text \<open>
  The claim as stated promises an entry that matches the submitted fields for every
  successful call. A participant found by e-mail or Seneca id is reused as stored: a
  body with Alice's address and Bob's name is booked on Alice, and the listing shows
  Alice's name.
\<close>

theorem listing_shows_stored_participant:
  "fst (fst (register_handler sample_lib (sample_request borrowed_body 5) alice_store)) = 201 \<and>
   registrations_handler admin ''e1''
     (snd (register_handler sample_lib (sample_request borrowed_body 5) alice_store)) =
   (200, RegistrationList
      [(\<lparr>reg_id = 1, userId = 1, eventId = ''e1'', createdAt = 5\<rparr>, Some (view_of alice))]) \<and>
   v_firstName (view_of alice) = ''Alice'' \<and>
   v_firstName (submitted_view sample_lib borrowed_body) = ''Bob''"
  by (simp add: sample_defs handler_defs Let_def registrations_handler_def
      registration_findMany_def view_of_def submitted_view_def)

section \<open>Two requests for the last seat\<close>

text \<open>
  Run alone, a task reaches its answer within five store calls, and the answer and
  the store are those of \<open>register_handler\<close>.
\<close>

lemma run_schedule_alone:
  "run_schedule lib [0, 0, 0, 0, 0] ([Begin rq], s) =
     ([Finished (fst (register_handler lib rq s))], snd (register_handler lib rq s))"
  by (simp add: register_handler_def create_and_count_def Let_def
      split: option.splits prod.splits)

text \<open>
  Claim C1 asks that of two concurrent requests for the last seat only one succeeds.
  The handler reads the counter in its first store call and bumps it in its last,
  and nothing holds the event row in between. When the two requests take turns at
  the store, both read 0 of 1, both pass the check, both are answered 201, and the
  counter ends at 2 above the ceiling 1.
\<close>

theorem concurrent_overbooking:
  "fst (run_schedule sample_lib taking_turns last_seat) =
     [Finished (201, RegistrationCreated ''Successfully registered for event''
        \<lparr>reg_id = 1, userId = 1, eventId = ''e1'', createdAt = 5\<rparr>),
      Finished (201, RegistrationCreated ''Successfully registered for event''
        \<lparr>reg_id = 2, userId = 2, eventId = ''e1'', createdAt = 6\<rparr>)] \<and>
   events (snd (run_schedule sample_lib taking_turns last_seat)) ''e1'' =
     Some (sample_event (Some 1) 2) \<and>
   length (registrations (snd (run_schedule sample_lib taking_turns last_seat))) = 2 \<and>
   \<not> within_capacity (sample_event (Some 1) 2)"
  by (simp add: sample_defs handler_defs within_capacity_def Let_def)

text \<open>One after the other, the second request meets the full event and is refused.\<close>

lemma sequential_last_seat:
  "fst (run_schedule sample_lib one_after_the_other last_seat) =
     [Finished (201, RegistrationCreated ''Successfully registered for event''
        \<lparr>reg_id = 1, userId = 1, eventId = ''e1'', createdAt = 5\<rparr>),
      Finished (400, ErrorMsg ''Event is at full capacity'')] \<and>
   events (snd (run_schedule sample_lib one_after_the_other last_seat)) ''e1'' =
     Some (sample_event (Some 1) 1)"
  by (simp add: sample_defs handler_defs Let_def)

end
